theory Spec2Isabelle
  imports Complex_Main "HOL-Library.Multiset"
begin

unbundle bit_operations_syntax

section \<open>Timing clusters, modulation guess and RfRaw encoding of rtl\_433 pulse data\<close>

text \<open>
  A shallow embedding of \<^verbatim>\<open>pulse_data_analyzer.py\<close> (class \<^verbatim>\<open>PulseDataAnalyzer\<close>) and
  \<^verbatim>\<open>rabbitmq_to_triq.py\<close>.

  Numbers. Durations are Python integers (\<^typ>\<open>int\<close>). Bin means, the tolerance and the
  tick-to-microsecond factor are Python floats; they are modelled by exact rationals
  (\<^typ>\<open>rat\<close>), so \<^verbatim>\<open>0.2\<close> is \<open>1/5\<close> and \<^verbatim>\<open>0.4\<close> is \<open>2/5\<close>, and no rounding happens in a
  division. Every concrete input evaluated below stays away from a tolerance boundary (or
  compares with a mean of exactly zero), so the verdict of each comparison is the same in
  double precision.

  Bins. A bin is the Python tuple \<^verbatim>\<open>(mean, count, min, max)\<close>. The count of a bin is only
  ever \<open>1\<close> or an earlier count plus \<open>1\<close>, hence a \<^typ>\<open>nat\<close>, and the division by
  \<^verbatim>\<open>new_count\<close> never divides by zero. The code reads a bin by position
  (\<^verbatim>\<open>x[0]\<close>, \<^verbatim>\<open>x[1]\<close>, \<^verbatim>\<open>x[2]\<close>), so the model has positional selectors.
\<close>

type_synonym timing_bin = "rat \<times> nat \<times> int \<times> int"

definition item0 :: "timing_bin \<Rightarrow> rat" where
  "item0 b = fst b"

definition item1 :: "timing_bin \<Rightarrow> nat" where
  "item1 b = fst (snd b)"

definition item2 :: "timing_bin \<Rightarrow> int" where
  "item2 b = fst (snd (snd b))"

definition item3 :: "timing_bin \<Rightarrow> int" where
  "item3 b = snd (snd (snd b))"

datatype py_error = ZeroDivisionError | IndexError

subsection \<open>\<^verbatim>\<open>pulse_data_analyzer.py\<close>: the analyzer object\<close>

record analyzer =
  sample_rate :: int
  to_us :: rat
  to_ms :: rat
  TOLERANCE :: rat

text \<open>\<^verbatim>\<open>__init__\<close>: the rate is read with \<^verbatim>\<open>pulse_data.get('rate_Hz', 250000)\<close>.\<close>

definition PulseDataAnalyzer_init :: "int option \<Rightarrow> py_error + analyzer" where
  "PulseDataAnalyzer_init rate_Hz =
     (let rate = (case rate_Hz of None \<Rightarrow> 250000 | Some r \<Rightarrow> r)
      in if rate = 0 then Inl ZeroDivisionError
         else Inr \<lparr>sample_rate = rate,
                   to_us = 1000000 / of_int rate,
                   to_ms = 1000 / of_int rate,
                   TOLERANCE = 1 / 5\<rparr>)"

subsection \<open>\<^verbatim>\<open>PulseDataAnalyzer._create_histogram\<close>\<close>

text \<open>
  The inner loop \<^verbatim>\<open>for i, (bin_mean, bin_count, bin_min, bin_max) in enumerate(bins)\<close>,
  started at index \<open>i\<close>. It returns the bin list and the flag \<^verbatim>\<open>found_bin\<close>.
\<close>

function analyzer_scan_bins ::
  "rat \<Rightarrow> int \<Rightarrow> timing_bin list \<Rightarrow> nat \<Rightarrow> timing_bin list \<times> bool" where
  "analyzer_scan_bins tol v bins i =
     (if i < length bins then
        (case bins ! i of (bin_mean, bin_count, bin_min, bin_max) \<Rightarrow>
           if \<bar>of_int v - bin_mean\<bar> \<le> bin_mean * tol then
             (let new_count = bin_count + 1;
                  new_mean = (bin_mean * of_nat bin_count + of_int v) / of_nat new_count;
                  new_min = min bin_min v;
                  new_max = max bin_max v
              in (bins[i := (new_mean, new_count, new_min, new_max)], True))
           else analyzer_scan_bins tol v bins (i + 1))
      else (bins, False))"
  by pat_completeness auto
termination
  by (relation "measure (\<lambda>(tol, v, bins, i). length bins - i)") auto

declare analyzer_scan_bins.simps [simp del]

text \<open>The body of the outer loop \<^verbatim>\<open>for value in sorted_values\<close>.\<close>

definition analyzer_add_value :: "rat \<Rightarrow> timing_bin list \<Rightarrow> int \<Rightarrow> timing_bin list" where
  "analyzer_add_value tol bins v =
     (case analyzer_scan_bins tol v bins 0 of (bins', found_bin) \<Rightarrow>
        if \<not> found_bin then bins' @ [(of_int v, 1, v, v)] else bins')"

definition PulseDataAnalyzer_create_histogram :: "analyzer \<Rightarrow> int list \<Rightarrow> timing_bin list" where
  "PulseDataAnalyzer_create_histogram self vs =
     (if vs = [] then []
      else foldl (analyzer_add_value (TOLERANCE self)) [] (sort vs))"

subsection \<open>\<^verbatim>\<open>PulseDataAnalyzer._suggest_flex_decoder\<close>\<close>

text \<open>
  The function prints the derived parameters; the model returns them. \<^verbatim>\<open>list.sort\<close> sorts
  the caller's lists in place, so the model also returns both lists as they are after the
  call. \<^verbatim>\<open>gap_bins[0]\<close> on an empty list raises \<^verbatim>\<open>IndexError\<close>.
\<close>

datatype flex_suggestion =
    FlexPPM rat rat rat rat  \<comment> \<open>short\_width, long\_width, gap\_limit, reset\_limit\<close>
  | FlexPWM rat rat rat rat rat  \<comment> \<open>short\_width, long\_width, reset\_limit, tolerance, sync\_width\<close>

definition suggest_flex_decoder ::
  "analyzer \<Rightarrow> string \<Rightarrow> timing_bin list \<Rightarrow> timing_bin list \<Rightarrow> bool \<Rightarrow>
     timing_bin list \<times> timing_bin list \<times> (py_error + flex_suggestion option)" where
  "suggest_flex_decoder self modulation pulse_bins gap_bins has_sync =
     (if pulse_bins = [] then (pulse_bins, gap_bins, Inr None)
      else
        let pulse_bins1 = sort_key item0 pulse_bins;
            gap_bins1 = sort_key item0 gap_bins
        in
          if modulation = ''OOK_PPM'' then
            (if gap_bins1 = [] then (pulse_bins1, gap_bins1, Inl IndexError)
             else
               let short_width = item0 (gap_bins1 ! 0) * to_us self;
                   long_width = (if length gap_bins1 > 1 then item0 (gap_bins1 ! 1) * to_us self
                                 else short_width * 2);
                   gap_limit = long_width + 100;
                   reset_limit = of_int (item2 (last gap_bins1)) * to_us self + 100
               in (pulse_bins1, gap_bins1,
                   Inr (Some (FlexPPM short_width long_width gap_limit reset_limit))))
          else if modulation = ''OOK_PWM'' then
            (let (pulse_bins2, short_width, long_width, sync_width) =
                   (if has_sync \<and> length pulse_bins1 \<ge> 3 then
                      let pulse_bins2 = sort_key item1 pulse_bins1;
                          sync_width = item0 (pulse_bins2 ! 0) * to_us self;
                          p1 = item0 (pulse_bins2 ! 1) * to_us self;
                          p2 = item0 (pulse_bins2 ! 2) * to_us self
                      in (pulse_bins2, min p1 p2, max p1 p2, sync_width)
                    else
                      let short_width = item0 (pulse_bins1 ! 0) * to_us self;
                          long_width = (if length pulse_bins1 > 1
                                        then item0 (pulse_bins1 ! 1) * to_us self
                                        else short_width * 2)
                      in (pulse_bins1, short_width, long_width, 0));
                 reset_limit = (if gap_bins1 \<noteq> []
                                then of_int (item2 (last gap_bins1)) * to_us self + 100
                                else 10000);
                 tolerance = \<bar>long_width - short_width\<bar> * (2 / 5)
             in (pulse_bins2, gap_bins1,
                 Inr (Some (FlexPWM short_width long_width reset_limit tolerance sync_width))))
          else (pulse_bins1, gap_bins1, Inr None))"

subsection \<open>\<^verbatim>\<open>PulseDataAnalyzer._guess_modulation\<close>\<close>

text \<open>
  The verdict is the message the function prints, in the order of its
  \<^verbatim>\<open>if\<close>/\<^verbatim>\<open>elif\<close> chain; the second component is what the call of
  \<^verbatim>\<open>_suggest_flex_decoder\<close> derives, when there is one.
\<close>

datatype modulation_guess =
    SinglePulse      \<comment> \<open>"Single pulse detected. ..."\<close>
  | Unmodulated      \<comment> \<open>"Un-modulated signal. ..."\<close>
  | PpmFixedPulse    \<comment> \<open>"Pulse Position Modulation with fixed pulse width"\<close>
  | PwmFixedGap      \<comment> \<open>"Pulse Width Modulation with fixed gap"\<close>
  | PwmFixedPeriod   \<comment> \<open>"Pulse Width Modulation with fixed period"\<close>
  | PwmWithSync      \<comment> \<open>"Pulse Width Modulation with sync/delimiter"\<close>
  | Unknown          \<comment> \<open>"No clue..."\<close>

definition guess_modulation ::
  "analyzer \<Rightarrow> int list \<Rightarrow> int list \<Rightarrow> modulation_guess \<times> (py_error + flex_suggestion option)" where
  "guess_modulation self pulse_widths gap_widths =
     (let pulse_bins = PulseDataAnalyzer_create_histogram self pulse_widths;
          gap_bins = PulseDataAnalyzer_create_histogram self gap_widths;
          pulse_count = length pulse_bins;
          gap_count = length gap_bins;
          num_pulses = length pulse_widths
      in
        if num_pulses = 1 then (SinglePulse, Inr None)
        else if pulse_count = 1 \<and> gap_count = 1 then (Unmodulated, Inr None)
        else if pulse_count = 1 \<and> gap_count > 1 then
          (PpmFixedPulse, snd (snd (suggest_flex_decoder self ''OOK_PPM'' pulse_bins gap_bins False)))
        else if pulse_count = 2 \<and> gap_count = 1 then
          (PwmFixedGap, snd (snd (suggest_flex_decoder self ''OOK_PWM'' pulse_bins gap_bins False)))
        else if pulse_count = 2 \<and> gap_count = 2 then
          (PwmFixedPeriod, snd (snd (suggest_flex_decoder self ''OOK_PWM'' pulse_bins gap_bins False)))
        else if pulse_count = 3 then
          (PwmWithSync, snd (snd (suggest_flex_decoder self ''OOK_PWM'' pulse_bins gap_bins True)))
        else (Unknown, Inr None))"

subsection \<open>\<^verbatim>\<open>rabbitmq_to_triq.py\<close>: \<^verbatim>\<open>create_histogram\<close>\<close>

text \<open>The same two loops, written a second time in this script, and a final sort by mean.\<close>

function scan_bins ::
  "rat \<Rightarrow> int \<Rightarrow> timing_bin list \<Rightarrow> nat \<Rightarrow> timing_bin list \<times> bool" where
  "scan_bins tolerance v bins i =
     (if i < length bins then
        (case bins ! i of (bin_mean, bin_count, bin_min, bin_max) \<Rightarrow>
           if \<bar>of_int v - bin_mean\<bar> \<le> bin_mean * tolerance then
             (let new_count = bin_count + 1;
                  new_mean = (bin_mean * of_nat bin_count + of_int v) / of_nat new_count;
                  new_min = min bin_min v;
                  new_max = max bin_max v
              in (bins[i := (new_mean, new_count, new_min, new_max)], True))
           else scan_bins tolerance v bins (i + 1))
      else (bins, False))"
  by pat_completeness auto
termination
  by (relation "measure (\<lambda>(tolerance, v, bins, i). length bins - i)") auto

declare scan_bins.simps [simp del]

definition add_value :: "rat \<Rightarrow> timing_bin list \<Rightarrow> int \<Rightarrow> timing_bin list" where
  "add_value tolerance bins v =
     (case scan_bins tolerance v bins 0 of (bins', found_bin) \<Rightarrow>
        if \<not> found_bin then bins' @ [(of_int v, 1, v, v)] else bins')"

definition create_histogram :: "int list \<Rightarrow> rat \<Rightarrow> timing_bin list" where
  "create_histogram vs tolerance =
     (if vs = [] then []
      else sort_key item0 (foldl (add_value tolerance) [] (sort vs)))"

subsection \<open>\<^verbatim>\<open>find_timing_bin_index\<close>\<close>

function find_from :: "int \<Rightarrow> timing_bin list \<Rightarrow> rat \<Rightarrow> nat \<Rightarrow> int" where
  "find_from v timing_bins tolerance i =
     (if i < length timing_bins then
        (case timing_bins ! i of (bin_mean, _, _, _) \<Rightarrow>
           if \<bar>of_int v - bin_mean\<bar> \<le> bin_mean * tolerance then int i
           else find_from v timing_bins tolerance (i + 1))
      else - 1)"
  by pat_completeness auto
termination
  by (relation "measure (\<lambda>(v, timing_bins, tolerance, i). length timing_bins - i)") auto

declare find_from.simps [simp del]

definition find_timing_bin_index :: "int \<Rightarrow> timing_bin list \<Rightarrow> rat \<Rightarrow> int" where
  "find_timing_bin_index v timing_bins tolerance = find_from v timing_bins tolerance 0"

subsection \<open>Python's \<^verbatim>\<open>int()\<close> of a float and the format specs \<^verbatim>\<open>02X\<close>, \<^verbatim>\<open>04X\<close>\<close>

definition py_int :: "rat \<Rightarrow> int" where
  "py_int x = (if 0 \<le> x then \<lfloor>x\<rfloor> else \<lceil>x\<rceil>)"

definition hex_digit :: "nat \<Rightarrow> char" where
  "hex_digit d = ''0123456789ABCDEF'' ! d"

function hex_digits :: "nat \<Rightarrow> string" where
  "hex_digits n = (if n < 16 then [hex_digit n] else hex_digits (n div 16) @ [hex_digit (n mod 16)])"
  by pat_completeness auto
termination
  by (relation "measure (\<lambda>n. n)") auto

declare hex_digits.simps [simp del]

text \<open>\<^verbatim>\<open>f"{n:0wX}"\<close>: upper-case hexadecimal, zero-padded to width \<open>w\<close>, the sign counted.\<close>

definition format_X :: "nat \<Rightarrow> int \<Rightarrow> string" where
  "format_X w n =
     (if n < 0 then
        (let s = hex_digits (nat (- n)) in CHR ''-'' # replicate (w - 1 - length s) CHR ''0'' @ s)
      else
        (let s = hex_digits (nat n) in replicate (w - length s) CHR ''0'' @ s))"

subsection \<open>\<^verbatim>\<open>generate_rfraw_from_rabbitmq\<close>\<close>

record json_message =
  json_pulses :: "int list option"
  json_rate_Hz :: "int option"

text \<open>
  The function returns \<^verbatim>\<open>None\<close> after printing "Insufficient pulse data" or
  "Too many timings"; the model tells the two apart. A rate of zero raises
  \<^verbatim>\<open>ZeroDivisionError\<close>.
\<close>

datatype rfraw_error = InsufficientPulseData | TooManyTimings | RateZeroDivision

text \<open>The loop \<^verbatim>\<open>for i in range(0, len(pulses), 2)\<close> that fills the two width lists.\<close>

fun split_widths :: "int list \<Rightarrow> int list \<times> int list" where
  "split_widths [] = ([], [])"
| "split_widths [p] = ([p], [])"
| "split_widths (p # g # rest) =
     (case split_widths rest of (pulse_widths, gap_widths) \<Rightarrow> (p # pulse_widths, g # gap_widths))"

definition timing_table :: "timing_bin list \<Rightarrow> rat \<Rightarrow> string list" where
  "timing_table timing_bins to_us_factor =
     map (\<lambda>(timing, _, _, _).
            let timing_us = py_int (timing * to_us_factor);
                timing_us = min timing_us 65535
            in format_X 4 timing_us) timing_bins"

text \<open>One round of the loop \<^verbatim>\<open>for i in range(len(pulse_widths))\<close>: the hex parts it appends.\<close>

definition encode_pulse :: "timing_bin list \<Rightarrow> int list \<Rightarrow> int list \<Rightarrow> nat \<Rightarrow> string list" where
  "encode_pulse timing_bins pulse_widths gap_widths i =
     (let pulse = pulse_widths ! i;
          gap = (if i < length gap_widths then gap_widths ! i else 0);
          pulse_idx = find_timing_bin_index pulse timing_bins (1 / 5);
          gap_idx = find_timing_bin_index gap timing_bins (1 / 5)
      in if pulse_idx \<ge> 0 \<and> gap_idx \<ge> 0
         then [format_X 2 (128 OR (push_bit 4 pulse_idx) OR gap_idx)]
         else [])"

definition generate_rfraw_from_rabbitmq :: "json_message \<Rightarrow> rfraw_error + string" where
  "generate_rfraw_from_rabbitmq json_data =
     (let pulses = (case json_pulses json_data of None \<Rightarrow> [] | Some ps \<Rightarrow> ps);
          rate_hz = (case json_rate_Hz json_data of None \<Rightarrow> 250000 | Some r \<Rightarrow> r)
      in
        if pulses = [] \<or> length pulses < 2 then Inl InsufficientPulseData
        else if rate_hz = 0 then Inl RateZeroDivision
        else
          (case split_widths pulses of (pulse_widths, gap_widths) \<Rightarrow>
             let to_us_factor = 1000000 / of_int rate_hz;
                 all_timings = pulse_widths @ gap_widths;
                 timing_bins = create_histogram all_timings (1 / 5)
             in
               if length timing_bins > 8 then Inl TooManyTimings
               else
                 Inr (concat
                        ([''AA'', ''B1'', format_X 2 (int (length timing_bins))]
                         @ timing_table timing_bins to_us_factor
                         @ concat (map (encode_pulse timing_bins pulse_widths gap_widths)
                                     [0..<length pulse_widths])
                         @ [''55'']))))"

subsection \<open>A notion for the proofs\<close>


section \<open>The histogram loops\<close>



lemma scan_bins_eq: "scan_bins tol v bins i = analyzer_scan_bins tol v bins i"
proof (induction tol v bins i rule: analyzer_scan_bins.induct)
  case (1 tol v bins i)
  show ?case
  proof (cases "i < length bins")
    case False
    then show ?thesis by (simp add: analyzer_scan_bins.simps scan_bins.simps)
  next
    case True
    obtain m c lo hi where b: "bins ! i = (m, c, lo, hi)" by (cases "bins ! i") auto
    show ?thesis
    proof (cases "\<bar>of_int v - m\<bar> \<le> m * tol")
      case hit: True
      then show ?thesis
        using True b by (simp add: analyzer_scan_bins.simps[of tol v bins i] scan_bins.simps[of tol v bins i])
    next
      case miss: False
      have "scan_bins tol v bins (i + 1) = analyzer_scan_bins tol v bins (i + 1)"
        using "1.IH"[OF True b[symmetric] refl refl miss] .
      then show ?thesis
        using True b miss by (simp add: analyzer_scan_bins.simps[of tol v bins i] scan_bins.simps[of tol v bins i])
    qed
  qed
qed

lemma add_value_eq: "add_value tol bins v = analyzer_add_value tol bins v"
  by (simp add: add_value_def analyzer_add_value_def scan_bins_eq)



section \<open>Every bin list of the builder summarises a partition of the input\<close>

lemma foldl_add_value_eq:
  "foldl (add_value tol) bins xs = foldl (analyzer_add_value tol) bins xs"
  by (induction xs arbitrary: bins) (simp_all add: add_value_eq)

lemma create_histogram_sorted_analyzer:
  "create_histogram vs (TOLERANCE self) = sort_key item0 (PulseDataAnalyzer_create_histogram self vs)"
  by (simp add: create_histogram_def PulseDataAnalyzer_create_histogram_def foldl_add_value_eq)










section \<open>Facts about sorting and evaluation\<close>

lemmas histogram_eval =
  PulseDataAnalyzer_create_histogram_def analyzer_add_value_def analyzer_scan_bins.simps

lemma list3_of_length:
  assumes "length xs = 3"
  obtains a b c where "xs = [a, b, c]"
proof -
  from assms obtain a ys where 1: "xs = a # ys" "length ys = 2"
    by (cases xs) auto
  then obtain b zs where 2: "ys = b # zs" "length zs = 1"
    by (cases ys) auto
  then obtain c where "zs = [c]"
    by (cases zs) auto
  with 1 2 that show thesis by blast
qed

lemma sort_key_Nil_iff: "(sort_key f xs = []) = (xs = [])"
  by (metis length_0_conv length_sort)

section \<open>The index lookup and the hexadecimal rendering\<close>

lemma find_from_none:
  "(\<And>j. i \<le> j \<Longrightarrow> j < length bins \<Longrightarrow> \<not> \<bar>of_int v - item0 (bins ! j)\<bar> \<le> item0 (bins ! j) * tol)
   \<Longrightarrow> find_from v bins tol i = - 1"
proof (induction v bins tol i rule: find_from.induct)
  case (1 v bins tol i)
  show ?case
  proof (cases "i < length bins")
    case False
    then show ?thesis by (simp add: find_from.simps)
  next
    case True
    obtain m c lo hi where b: "bins ! i = (m, c, lo, hi)" by (cases "bins ! i") auto
    from "1.prems"[of i] True b have nm: "\<not> \<bar>of_int v - m\<bar> \<le> m * tol"
      by (simp add: item0_def)
    have "find_from v bins tol (i + 1) = - 1"
      using "1.IH"[OF True b[symmetric] refl refl nm] "1.prems" by simp
    then show ?thesis
      using True b nm by (subst find_from.simps) simp
  qed
qed

lemma find_from_first:
  "i \<le> k \<Longrightarrow> k < length bins \<Longrightarrow> \<bar>of_int v - item0 (bins ! k)\<bar> \<le> item0 (bins ! k) * tol \<Longrightarrow>
   (\<And>j. i \<le> j \<Longrightarrow> j < k \<Longrightarrow> \<not> \<bar>of_int v - item0 (bins ! j)\<bar> \<le> item0 (bins ! j) * tol)
   \<Longrightarrow> find_from v bins tol i = int k"
proof (induction v bins tol i rule: find_from.induct)
  case (1 v bins tol i)
  from "1.prems" have il: "i < length bins" by simp
  obtain m' c' lo' hi' where b: "bins ! i = (m', c', lo', hi')" by (cases "bins ! i") auto
  show ?case
  proof (cases "i = k")
    case True
    then show ?thesis
      using "1.prems" b by (subst find_from.simps) (simp add: item0_def)
  next
    case False
    with "1.prems" have ik: "i < k" by simp
    from "1.prems"(4)[of i] ik b have nm: "\<not> \<bar>of_int v - m'\<bar> \<le> m' * tol"
      by (simp add: item0_def)
    have "find_from v bins tol (i + 1) = int k"
      using "1.IH"[OF il b[symmetric] refl refl nm] "1.prems" ik by simp
    then show ?thesis
      using il b nm by (subst find_from.simps) simp
  qed
qed

lemma find_timing_bin_index_cases:
  "(find_timing_bin_index v bins tol = - 1
      \<and> (\<forall>j<length bins. \<not> \<bar>of_int v - item0 (bins ! j)\<bar> \<le> item0 (bins ! j) * tol))
   \<or> (\<exists>k<length bins. find_timing_bin_index v bins tol = int k
      \<and> \<bar>of_int v - item0 (bins ! k)\<bar> \<le> item0 (bins ! k) * tol
      \<and> (\<forall>j<k. \<not> \<bar>of_int v - item0 (bins ! j)\<bar> \<le> item0 (bins ! j) * tol))"
proof (cases "\<exists>j<length bins. \<bar>of_int v - item0 (bins ! j)\<bar> \<le> item0 (bins ! j) * tol")
  case False
  then have "find_from v bins tol 0 = - 1"
    by (intro find_from_none) simp
  with False show ?thesis by (simp add: find_timing_bin_index_def)
next
  case True
  define k where "k = (LEAST j. j < length bins \<and> \<bar>of_int v - item0 (bins ! j)\<bar> \<le> item0 (bins ! j) * tol)"
  from True have kp: "k < length bins \<and> \<bar>of_int v - item0 (bins ! k)\<bar> \<le> item0 (bins ! k) * tol"
    unfolding k_def by - (rule LeastI_ex, blast)
  have kmin: "\<not> \<bar>of_int v - item0 (bins ! j)\<bar> \<le> item0 (bins ! j) * tol" if "j < k" for j
    using not_less_Least[of j "\<lambda>j. j < length bins \<and> \<bar>of_int v - item0 (bins ! j)\<bar> \<le> item0 (bins ! j) * tol"]
      that kp unfolding k_def by auto
  have "find_from v bins tol 0 = int k"
    using kp kmin by (intro find_from_first) simp_all
  with kp kmin show ?thesis by (auto simp: find_timing_bin_index_def)
qed











section \<open>The parts of the frame\<close>










section \<open>The claims\<close>

subsection \<open>C1: the histogram builder\<close>



subsection \<open>C2: the bins partition the input\<close>



subsection \<open>C10: the two histogram implementations agree\<close>

text \<open>
  Claim C10. With the analyzer's tolerance at its value \<open>0.2\<close>, \<^verbatim>\<open>create_histogram(values, 0.2)\<close>
  of \<^verbatim>\<open>rabbitmq_to_triq.py\<close> returns the bin list of \<^verbatim>\<open>_create_histogram(values)\<close> sorted
  ascending by mean (a stable sort); both hold the same bins as multisets, and the former is
  sorted by mean.
\<close>

theorem C10_histograms_agree:
  assumes "TOLERANCE self = 1 / 5"
  shows "create_histogram vs (1 / 5) = sort_key item0 (PulseDataAnalyzer_create_histogram self vs)
         \<and> mset (create_histogram vs (1 / 5)) = mset (PulseDataAnalyzer_create_histogram self vs)
         \<and> sorted (map item0 (create_histogram vs (1 / 5)))"
proof -
  have eq: "create_histogram vs (1 / 5) = sort_key item0 (PulseDataAnalyzer_create_histogram self vs)"
    using create_histogram_sorted_analyzer[of vs self] assms by simp
  then show ?thesis by simp
qed

theorem C10_histograms_agree_witness:
  "create_histogram [210, 100, 200] (1 / 5)
     = sort_key item0 (PulseDataAnalyzer_create_histogram
         \<lparr>sample_rate = 250000, to_us = 4, to_ms = 1 / 250, TOLERANCE = 1 / 5\<rparr> [210, 100, 200])
   \<and> create_histogram [210, 100, 200] (1 / 5) = [(100, 1, 100, 100), (205, 2, 200, 210)]"
proof -
  have t: "TOLERANCE \<lparr>sample_rate = 250000, to_us = 4, to_ms = 1 / 250, TOLERANCE = 1 / 5\<rparr> = 1 / 5"
    by simp
  have h: "create_histogram [210, 100, 200] (1 / 5) = [(100, 1, 100, 100), (205, 2, 200, 210)]"
    by (simp add: create_histogram_def add_value_def scan_bins.simps item0_def)
  from C10_histograms_agree [OF t, of "[210, 100, 200]"] h show ?thesis
    by simp
qed

subsection \<open>C3: the classification table\<close>

text \<open>
  Claim C3. The verdict of \<^verbatim>\<open>_guess_modulation\<close> is the first matching row of the table
  over \<open>N\<close>, the number of pulse widths, and \<open>P\<close> and \<open>G\<close>, the numbers of pulse bins and gap
  bins of the tolerance histogram: \<open>N = 1\<close> gives SinglePulse; \<open>P = 1\<close> and \<open>G = 1\<close>
  Unmodulated; \<open>P = 1\<close> and \<open>G > 1\<close> PpmFixedPulse; \<open>P = 2\<close> and \<open>G = 1\<close> PwmFixedGap;
  \<open>P = 2\<close> and \<open>G = 2\<close> PwmFixedPeriod; \<open>P = 3\<close> PwmWithSync; anything else Unknown.
\<close>

theorem C3_guess_modulation_table:
  "fst (guess_modulation self pulse_widths gap_widths) =
     (let N = length pulse_widths;
          P = length (PulseDataAnalyzer_create_histogram self pulse_widths);
          G = length (PulseDataAnalyzer_create_histogram self gap_widths)
      in if N = 1 then SinglePulse
         else if P = 1 \<and> G = 1 then Unmodulated
         else if P = 1 \<and> G > 1 then PpmFixedPulse
         else if P = 2 \<and> G = 1 then PwmFixedGap
         else if P = 2 \<and> G = 2 then PwmFixedPeriod
         else if P = 3 then PwmWithSync
         else Unknown)"
  by (simp add: guess_modulation_def Let_def)

theorem C3_guess_modulation_table_witness:
  "fst (guess_modulation \<lparr>sample_rate = 250000, to_us = 4, to_ms = 1 / 250, TOLERANCE = 1 / 5\<rparr>
         [100, 100, 100] [200, 400, 200, 400]) = PpmFixedPulse
   \<and> fst (guess_modulation \<lparr>sample_rate = 250000, to_us = 4, to_ms = 1 / 250, TOLERANCE = 1 / 5\<rparr>
         [100, 200, 100] [200, 100, 200]) = PwmFixedPeriod
   \<and> fst (guess_modulation \<lparr>sample_rate = 250000, to_us = 4, to_ms = 1 / 250, TOLERANCE = 1 / 5\<rparr>
         [100] [200]) = SinglePulse"
  using
    C3_guess_modulation_table [of "\<lparr>sample_rate = 250000, to_us = 4, to_ms = 1 / 250, TOLERANCE = 1 / 5\<rparr>"
      "[100, 100, 100]" "[200, 400, 200, 400]"]
    C3_guess_modulation_table [of "\<lparr>sample_rate = 250000, to_us = 4, to_ms = 1 / 250, TOLERANCE = 1 / 5\<rparr>"
      "[100, 200, 100]" "[200, 100, 200]"]
    C3_guess_modulation_table [of "\<lparr>sample_rate = 250000, to_us = 4, to_ms = 1 / 250, TOLERANCE = 1 / 5\<rparr>"
      "[100]" "[200]"]
  by (simp add: histogram_eval)

subsection \<open>C4: the reset limit\<close>

text \<open>
  Claim C4 says that the reset limit is the \<open>max\<close> field of the last gap bin, times
  \<open>to_us\<close>, plus 100. The code reads \<^verbatim>\<open>gap_bins[-1][2]\<close>, which is the \<open>min\<close> field of the
  tuple \<open>(mean, count, min, max)\<close>, under the comment \<^verbatim>\<open># max + margin\<close>. At 250 kHz,
  pulse widths \<open>[100, 100, 100, 100]\<close> and gap widths \<open>[200, 210, 400, 420]\<close> give the gap
  bins \<open>(205, 2, 200, 210)\<close> and \<open>(410, 2, 400, 420)\<close>; the code derives the reset limit
  \<open>400 * 4 + 100 = 1700\<close>, where the claim has \<open>420 * 4 + 100 = 1780\<close>. The short width,
  the long width and the gap limit are as claimed. The same index is read on the PWM path.
\<close>

theorem C4_reset_limit_reads_min:
  "PulseDataAnalyzer_init (Some 250000)
     = Inr \<lparr>sample_rate = 250000, to_us = 4, to_ms = 1 / 250, TOLERANCE = 1 / 5\<rparr>
   \<and> PulseDataAnalyzer_create_histogram
        \<lparr>sample_rate = 250000, to_us = 4, to_ms = 1 / 250, TOLERANCE = 1 / 5\<rparr> [200, 210, 400, 420]
     = [(205, 2, 200, 210), (410, 2, 400, 420)]
   \<and> guess_modulation \<lparr>sample_rate = 250000, to_us = 4, to_ms = 1 / 250, TOLERANCE = 1 / 5\<rparr>
        [100, 100, 100, 100] [200, 210, 400, 420]
     = (PpmFixedPulse, Inr (Some (FlexPPM 820 1640 1740 1700)))
   \<and> of_int (item3 (410, 2, 400, 420)) * (4 :: rat) + 100 = 1780
   \<and> guess_modulation \<lparr>sample_rate = 250000, to_us = 4, to_ms = 1 / 250, TOLERANCE = 1 / 5\<rparr>
        [100, 200, 100, 210] [400, 420, 400]
     = (PwmFixedGap, Inr (Some (FlexPWM 400 820 1700 168 0)))"
  by (simp add: PulseDataAnalyzer_init_def guess_modulation_def suggest_flex_decoder_def
      histogram_eval item0_def item1_def item2_def item3_def Let_def)

subsection \<open>C5: PWM with a sync pulse\<close>

text \<open>
  Claim C5. With three pulse bins, the sync variant of the PWM derivation re-sorts the pulse
  bins ascending by count, takes the sync width from the mean of the bin with the least
  count, takes the short and the long width as the smaller and the larger of the other two
  bins' means (all times \<open>to_us\<close>), and sets the tolerance to \<open>\<bar>long - short\<bar> * 0.4\<close>.
\<close>

theorem C5_pwm_with_sync:
  assumes "length pulse_bins = 3"
  shows "\<exists>b0 b1 b2 reset_limit.
           sort_key item1 (sort_key item0 pulse_bins) = [b0, b1, b2]
           \<and> mset pulse_bins = {#b0, b1, b2#}
           \<and> item1 b0 \<le> item1 b1 \<and> item1 b1 \<le> item1 b2
           \<and> suggest_flex_decoder self ''OOK_PWM'' pulse_bins gap_bins True
               = ([b0, b1, b2], sort_key item0 gap_bins,
                  Inr (Some (FlexPWM
                    (min (item0 b1 * to_us self) (item0 b2 * to_us self))
                    (max (item0 b1 * to_us self) (item0 b2 * to_us self))
                    reset_limit
                    (\<bar>max (item0 b1 * to_us self) (item0 b2 * to_us self)
                       - min (item0 b1 * to_us self) (item0 b2 * to_us self)\<bar> * (2 / 5))
                    (item0 b0 * to_us self))))"
proof -
  have len: "length (sort_key item1 (sort_key item0 pulse_bins)) = 3"
    using assms by simp
  then obtain b0 b1 b2 where s: "sort_key item1 (sort_key item0 pulse_bins) = [b0, b1, b2]"
    by (rule list3_of_length)
  have "mset (sort_key item1 (sort_key item0 pulse_bins)) = mset pulse_bins"
    by simp
  then have m: "mset pulse_bins = {#b0, b1, b2#}"
    using s by simp
  have "sorted (map item1 (sort_key item1 (sort_key item0 pulse_bins)))"
    by (rule sorted_sort_key)
  then have o: "item1 b0 \<le> item1 b1 \<and> item1 b1 \<le> item1 b2"
    using s by simp
  have ne: "pulse_bins \<noteq> []" using assms by auto
  have l1: "3 \<le> length (sort_key item0 pulse_bins)" using assms by simp
  show ?thesis
    using s m o ne l1
    by (simp add: suggest_flex_decoder_def Let_def)
qed

theorem C5_pwm_with_sync_witness:
  "suggest_flex_decoder \<lparr>sample_rate = 250000, to_us = 4, to_ms = 1 / 250, TOLERANCE = 1 / 5\<rparr>
     ''OOK_PWM'' [(100, 2, 100, 100), (200, 3, 200, 200), (400, 1, 400, 400)] [] True
   = ([(400, 1, 400, 400), (100, 2, 100, 100), (200, 3, 200, 200)], [],
      Inr (Some (FlexPWM 400 800 10000 160 1600)))"
proof -
  have l: "length [(100, 2, 100, 100), (200, 3, 200, 200), (400 :: rat, 1 :: nat, 400 :: int, 400 :: int)] = 3"
    by simp
  have e: "sort_key item1 (sort_key item0 [(100, 2, 100, 100), (200, 3, 200, 200), (400, 1, 400, 400)])
       = [(400, 1, 400, 400), (100, 2, 100, 100), (200, 3, 200, 200)]"
    by (simp add: item0_def item1_def)
  from C5_pwm_with_sync [OF l, of "\<lparr>sample_rate = 250000, to_us = 4, to_ms = 1 / 250, TOLERANCE = 1 / 5\<rparr>" "[]"]
  show ?thesis
    by (simp add: e suggest_flex_decoder_def item0_def item1_def item2_def Let_def)
qed

subsection \<open>C9: the derivation and its input lists\<close>

text \<open>
  Claim C9 says that the derivation leaves \<^verbatim>\<open>pulse_bins\<close> and \<^verbatim>\<open>gap_bins\<close> unchanged in
  contents and order. The code sorts both lists in place with \<^verbatim>\<open>list.sort\<close>. The pulse bins
  of the widths \<open>[100, 100, 200, 200, 200, 400]\<close> have the counts 2, 3 and 1; after the sync
  derivation the caller's list starts with the bin of count 1.
\<close>

theorem C9_inputs_reordered_counterexample:
  "PulseDataAnalyzer_create_histogram
       \<lparr>sample_rate = 250000, to_us = 4, to_ms = 1 / 250, TOLERANCE = 1 / 5\<rparr>
       [100, 100, 200, 200, 200, 400]
     = [(100, 2, 100, 100), (200, 3, 200, 200), (400, 1, 400, 400)]
   \<and> fst (suggest_flex_decoder \<lparr>sample_rate = 250000, to_us = 4, to_ms = 1 / 250, TOLERANCE = 1 / 5\<rparr>
       ''OOK_PWM'' [(100, 2, 100, 100), (200, 3, 200, 200), (400, 1, 400, 400)] [] True)
     = [(400, 1, 400, 400), (100, 2, 100, 100), (200, 3, 200, 200)]
   \<and> fst (suggest_flex_decoder \<lparr>sample_rate = 250000, to_us = 4, to_ms = 1 / 250, TOLERANCE = 1 / 5\<rparr>
       ''OOK_PWM'' [(100, 2, 100, 100), (200, 3, 200, 200), (400, 1, 400, 400)] [] True)
     \<noteq> [(100, 2, 100, 100), (200, 3, 200, 200), (400, 1, 400, 400)]"
  by (simp add: suggest_flex_decoder_def item0_def item1_def item2_def Let_def
      PulseDataAnalyzer_create_histogram_def analyzer_add_value_def analyzer_scan_bins.simps)

text \<open>
  Claim C9, amended. The derivation never adds, removes or alters a bin: after the call both
  lists hold the same bins as before (as multisets). With no pulse bins, both lists are
  untouched. Otherwise \<^verbatim>\<open>gap_bins\<close> is left stably sorted ascending by mean, and
  \<^verbatim>\<open>pulse_bins\<close> stably sorted ascending by mean, or, in the sync variant of
  \<^verbatim>\<open>OOK_PWM\<close> with at least three pulse bins, sorted by mean and then stably by count.
\<close>

theorem C9_inputs_sorted_in_place:
  "mset (fst (suggest_flex_decoder self modulation pulse_bins gap_bins has_sync)) = mset pulse_bins
   \<and> mset (fst (snd (suggest_flex_decoder self modulation pulse_bins gap_bins has_sync))) = mset gap_bins
   \<and> (pulse_bins = [] \<longrightarrow>
        fst (suggest_flex_decoder self modulation pulse_bins gap_bins has_sync) = pulse_bins
        \<and> fst (snd (suggest_flex_decoder self modulation pulse_bins gap_bins has_sync)) = gap_bins)
   \<and> (pulse_bins \<noteq> [] \<longrightarrow>
        fst (snd (suggest_flex_decoder self modulation pulse_bins gap_bins has_sync))
          = sort_key item0 gap_bins
        \<and> fst (suggest_flex_decoder self modulation pulse_bins gap_bins has_sync)
          = (if modulation = ''OOK_PWM'' \<and> has_sync \<and> 3 \<le> length pulse_bins
             then sort_key item1 (sort_key item0 pulse_bins)
             else sort_key item0 pulse_bins))"
  by (simp add: suggest_flex_decoder_def Let_def sort_key_Nil_iff split: prod.splits)

theorem C9_inputs_sorted_in_place_witness:
  "mset (fst (suggest_flex_decoder \<lparr>sample_rate = 250000, to_us = 4, to_ms = 1 / 250, TOLERANCE = 1 / 5\<rparr>
       ''OOK_PPM'' [(100, 4, 100, 100)] [(410, 2, 400, 420), (205, 2, 200, 210)] False))
     = {#(100, 4, 100, 100)#}
   \<and> fst (snd (suggest_flex_decoder \<lparr>sample_rate = 250000, to_us = 4, to_ms = 1 / 250, TOLERANCE = 1 / 5\<rparr>
       ''OOK_PPM'' [(100, 4, 100, 100)] [(410, 2, 400, 420), (205, 2, 200, 210)] False))
     = [(205, 2, 200, 210), (410, 2, 400, 420)]
   \<and> suggest_flex_decoder \<lparr>sample_rate = 250000, to_us = 4, to_ms = 1 / 250, TOLERANCE = 1 / 5\<rparr>
       ''OOK_PPM'' [] [(410, 2, 400, 420), (205, 2, 200, 210)] False
     = ([], [(410, 2, 400, 420), (205, 2, 200, 210)], Inr None)"
  using
    C9_inputs_sorted_in_place [of "\<lparr>sample_rate = 250000, to_us = 4, to_ms = 1 / 250, TOLERANCE = 1 / 5\<rparr>"
      "''OOK_PPM''" "[(100, 4, 100, 100)]" "[(410, 2, 400, 420), (205, 2, 200, 210)]" False]
    C9_inputs_sorted_in_place [of "\<lparr>sample_rate = 250000, to_us = 4, to_ms = 1 / 250, TOLERANCE = 1 / 5\<rparr>"
      "''OOK_PPM''" "[]" "[(410, 2, 400, 420), (205, 2, 200, 210)]" False]
  by (simp add: suggest_flex_decoder_def item0_def)

subsection \<open>C7: the index lookup and unmatched durations\<close>

text \<open>
  Claim C7 says that the encoder fails when a duration matches no bin. The code has no such
  failure: \<^verbatim>\<open>find_timing_bin_index\<close> returns \<open>-1\<close> and the loop skips the pair under
  \<^verbatim>\<open>if pulse_idx >= 0 and gap_idx >= 0\<close>. The durations \<open>100, 115, 125, 135, 140, 145\<close>
  merge one after the other into a single bin whose mean drifts up to \<open>380/3\<close>; then
  \<open>100\<close> is further than a fifth of the mean from it, its lookup yields \<open>-1\<close>, and the frame
  comes out with two data bytes for three pairs.
\<close>

theorem C7_unmatched_pair_skipped_counterexample:
  "create_histogram ([100, 125, 140] @ [115, 135, 145]) (1 / 5) = [(380 / 3, 6, 100, 145)]
   \<and> find_timing_bin_index 100 (create_histogram ([100, 125, 140] @ [115, 135, 145]) (1 / 5)) (1 / 5)
     = - 1
   \<and> generate_rfraw_from_rabbitmq
       \<lparr>json_pulses = Some [100, 115, 125, 135, 140, 145], json_rate_Hz = Some 250000\<rparr>
     = Inr ''AAB10101FA808055''"
  by code_simp

text \<open>
  Claim C7, amended. The index of a duration is found by a first-match linear scan over the
  timing bins: the result is the least index whose bin is within tolerance, and \<open>-1\<close> when
  no bin is. A pulse whose lookup, or whose gap's lookup, yields \<open>-1\<close> contributes no data
  byte, and the encoder does not fail on it: for a pulse train of length at least 2, a
  non-zero rate and at most 8 timing bins it returns a frame.
\<close>

theorem C7_lookup_first_match_skip:
  "((find_timing_bin_index v bins tol = - 1
       \<and> (\<forall>j<length bins. \<not> \<bar>of_int v - item0 (bins ! j)\<bar> \<le> item0 (bins ! j) * tol))
     \<or> (\<exists>k<length bins. find_timing_bin_index v bins tol = int k
       \<and> \<bar>of_int v - item0 (bins ! k)\<bar> \<le> item0 (bins ! k) * tol
       \<and> (\<forall>j<k. \<not> \<bar>of_int v - item0 (bins ! j)\<bar> \<le> item0 (bins ! j) * tol)))
   \<and> (find_timing_bin_index (pulse_widths ! i) bins (1 / 5) = - 1
       \<or> find_timing_bin_index (if i < length gap_widths then gap_widths ! i else 0) bins (1 / 5) = - 1
      \<longrightarrow> encode_pulse bins pulse_widths gap_widths i = [])
   \<and> (json_pulses j = Some pulses \<and> 2 \<le> length pulses \<and> json_rate_Hz j = Some rate \<and> rate \<noteq> 0
       \<and> length (create_histogram (fst (split_widths pulses) @ snd (split_widths pulses)) (1 / 5)) \<le> 8
      \<longrightarrow> (\<exists>frame. generate_rfraw_from_rabbitmq j = Inr frame))"
proof -
  have skip: "encode_pulse bins pulse_widths gap_widths i = []"
    if "find_timing_bin_index (pulse_widths ! i) bins (1 / 5) = - 1
       \<or> find_timing_bin_index (if i < length gap_widths then gap_widths ! i else 0) bins (1 / 5) = - 1"
    using that by (auto simp: encode_pulse_def Let_def)
  have ok: "\<exists>frame. generate_rfraw_from_rabbitmq j = Inr frame"
    if "json_pulses j = Some pulses \<and> 2 \<le> length pulses \<and> json_rate_Hz j = Some rate \<and> rate \<noteq> 0
       \<and> length (create_histogram (fst (split_widths pulses) @ snd (split_widths pulses)) (1 / 5)) \<le> 8"
  proof -
    from that have ne: "pulses \<noteq> []" by auto
    show ?thesis
      using that ne
      by (cases "split_widths pulses") (simp add: generate_rfraw_from_rabbitmq_def Let_def)
  qed
  from find_timing_bin_index_cases[of v bins tol] skip ok show ?thesis
    by blast
qed

theorem C7_lookup_first_match_skip_witness:
  "find_timing_bin_index 0 [(100, 2, 100, 100), (200, 1, 200, 200)] (1 / 5) = - 1
   \<and> encode_pulse [(100, 2, 100, 100), (200, 1, 200, 200)] [100, 100] [200] 1 = []
   \<and> (\<exists>frame. generate_rfraw_from_rabbitmq
         \<lparr>json_pulses = Some [100, 200, 100], json_rate_Hz = Some 250000\<rparr> = Inr frame)"
proof -
  have h1: "find_timing_bin_index 0 [(100, 2, 100, 100), (200, 1, 200, 200)] (1 / 5) = - 1"
    by code_simp
  have h2: "length (create_histogram (fst (split_widths [100, 200, 100])
              @ snd (split_widths [100, 200, 100])) (1 / 5)) \<le> 8"
    by code_simp
  note c7 = C7_lookup_first_match_skip
    [of 0 "[(100, 2, 100, 100), (200, 1, 200, 200)]" "1 / 5" "[100, 100]" 1 "[200]"
        "\<lparr>json_pulses = Some [100, 200, 100], json_rate_Hz = Some 250000\<rparr>" "[100, 200, 100]" 250000]
  from c7 h1 have e: "encode_pulse [(100, 2, 100, 100), (200, 1, 200, 200)] [100, 100] [200] 1 = []"
    by simp
  from c7 h2 have f: "\<exists>frame. generate_rfraw_from_rabbitmq
         \<lparr>json_pulses = Some [100, 200, 100], json_rate_Hz = Some 250000\<rparr> = Inr frame"
    by simp
  from h1 e f show ?thesis by blast
qed

subsection \<open>C8: the trailing unpaired pulse\<close>

text \<open>
  Claim C8 says that the last pulse of an odd-length pulse train is encoded against a gap of
  zero duration. The code does pair it with \<^verbatim>\<open>gap = 0\<close>, but then looks the \<open>0\<close> up in the
  timing bins, where it matches only a bin of mean \<open>0\<close>; otherwise the lookup yields \<open>-1\<close>
  and the guard drops the pulse. For \<open>[100, 200, 100]\<close> at 250 kHz the frame has the single
  data byte \<open>81\<close>. Only when the train holds a zero duration, as in \<open>[100, 0, 100]\<close>, is the
  last pulse encoded (second data byte \<open>90\<close>).
\<close>

theorem C8_trailing_pulse_dropped:
  "generate_rfraw_from_rabbitmq \<lparr>json_pulses = Some [100, 200, 100], json_rate_Hz = Some 250000\<rparr>
     = Inr ''AAB102019003208155''
   \<and> split_widths [100, 200, 100] = ([100, 100], [200])
   \<and> create_histogram ([100, 100] @ [200]) (1 / 5) = [(100, 2, 100, 100), (200, 1, 200, 200)]
   \<and> find_timing_bin_index 0 [(100, 2, 100, 100), (200, 1, 200, 200)] (1 / 5) = - 1
   \<and> encode_pulse [(100, 2, 100, 100), (200, 1, 200, 200)] [100, 100] [200] 0 = [''81'']
   \<and> encode_pulse [(100, 2, 100, 100), (200, 1, 200, 200)] [100, 100] [200] 1 = []
   \<and> generate_rfraw_from_rabbitmq \<lparr>json_pulses = Some [100, 0, 100], json_rate_Hz = Some 250000\<rparr>
     = Inr ''AAB10200000190909055''"
  by code_simp

subsection \<open>C6: the frame\<close>




end
